theory Spec2Isabelle
  imports Main "HOL-Library.Word"
begin

section \<open>Messages\<close>

text \<open>
  The message type, the codes and the option codes are integer constants of the package
  whose declarations are not among the sources; only their names occur there. They are
  kept as names: no numeric value is assumed, and every value without a name in
  \<^verbatim>\<open>handleMessage\<close> is an \<open>OTHER\<close> constructor.
\<close>

datatype MessageType =
  TYPE_CONFIRMABLE | TYPE_NONCONFIRMABLE | TYPE_ACKNOWLEDGEMENT | TYPE_RESET

datatype CoapCode =
  COAPCODE_0_EMPTY | GET | POST | PUT | DELETE
  | COAPCODE_205_CONTENT
  | COAPCODE_402_BAD_OPTION
  | COAPCODE_404_NOT_FOUND
  | COAPCODE_405_METHOD_NOT_ALLOWED
  | COAPCODE_415_UNSUPPORTED_CONTENT_FORMAT
  | COAPCODE_501_NOT_IMPLEMENTED
  | COAPCODE_OTHER nat

datatype OptionCode =
  OPTION_OBSERVE | OPTION_URI_PATH | OPTION_CONTENT_FORMAT | OPTION_PROXY_URI
  | OPTION_OTHER nat

datatype OptionValue = IntValue int | StringValue string

text \<open>An option: its code and its value, \<open>None\<close> for Go's \<^verbatim>\<open>nil\<close>.\<close>

record CoapOption =
  OptCode :: OptionCode
  Value :: "OptionValue option"

text \<open>
  Go strings and byte slices are byte sequences, and so is \<open>string\<close>; the token and the
  payload are both held as \<open>string\<close>, which makes \<^verbatim>\<open>string(msg.Token)\<close> the identity.
\<close>

record Message =
  MessageType :: MessageType
  Code :: CoapCode
  MessageId :: "16 word"
  Token :: string
  Options :: "CoapOption list"
  Payload :: string

text \<open>A peer address is held as its \<^verbatim>\<open>String()\<close> form, the only way the code compares two.\<close>

type_synonym UDPAddr = string

record CoapRequest =
  req_msg :: Message
  req_attrs :: "(string \<times> string) list"
  req_addr :: UDPAddr

section \<open>The retransmission queue (queue.go)\<close>

text \<open>Times are nanoseconds, as in \<^verbatim>\<open>time.Duration\<close>.\<close>

type_synonym time = int

record Item =
  ivalue :: "CoapRequest option"
  priority :: int
  index :: int
  retries :: int
  ts :: "time option"

type_synonym PriorityQueue = "Item list"

datatype panic = NilPointerDereference | IndexOutOfRange

definition PriorityQueue_Len :: "PriorityQueue \<Rightarrow> int" where
  "PriorityQueue_Len pq = int (length pq)"

definition PriorityQueue_Push :: "PriorityQueue \<Rightarrow> Item \<Rightarrow> PriorityQueue" where
  "PriorityQueue_Push pq item = pq @ [item\<lparr>index := int (length pq)\<rparr>]"

definition PriorityQueue_Pop :: "PriorityQueue \<Rightarrow> panic + (PriorityQueue \<times> Item)" where
  "PriorityQueue_Pop old =
     (if old = [] then Inl IndexOutOfRange
      else Inr (butlast old, (last old)\<lparr>index := - 1\<rparr>))"

text \<open>
  \<^verbatim>\<open>DefaultQueue\<close> holds a pointer to the slice; \<^verbatim>\<open>NewDefaultQueue\<close> leaves it \<^verbatim>\<open>nil\<close>,
  and the methods of \<^verbatim>\<open>PriorityQueue\<close> dereference it.
\<close>

record DefaultQueue =
  priorityQueue :: "PriorityQueue option"

definition NewDefaultQueue :: DefaultQueue where
  "NewDefaultQueue = \<lparr>priorityQueue = None\<rparr>"

text \<open>
  What a method of the queue does besides changing the queue: the datagrams it sends and
  the timeout events it fires.
\<close>

datatype queue_effect = Transmit Message UDPAddr | OnTimeout Message UDPAddr

definition DefaultQueue_Start :: "DefaultQueue \<Rightarrow> DefaultQueue \<times> queue_effect list" where
  "DefaultQueue_Start q = (q, [])"

definition DefaultQueue_Stop :: "DefaultQueue \<Rightarrow> DefaultQueue \<times> queue_effect list" where
  "DefaultQueue_Stop q = (q, [])"

definition DefaultQueue_Push :: "DefaultQueue \<Rightarrow> Item \<Rightarrow> panic + DefaultQueue" where
  "DefaultQueue_Push q i =
     (case priorityQueue q of
        None \<Rightarrow> Inl NilPointerDereference
      | Some pq \<Rightarrow> Inr (q\<lparr>priorityQueue := Some (PriorityQueue_Push pq i)\<rparr>))"

definition DefaultQueue_Pop :: "DefaultQueue \<Rightarrow> panic + (DefaultQueue \<times> Item)" where
  "DefaultQueue_Pop q =
     (case priorityQueue q of
        None \<Rightarrow> Inl NilPointerDereference
      | Some pq \<Rightarrow>
          (case PriorityQueue_Pop pq of
             Inl e \<Rightarrow> Inl e
           | Inr (pq', item) \<Rightarrow> Inr (q\<lparr>priorityQueue := Some pq'\<rparr>, item)))"

definition DefaultQueue_Clear :: "DefaultQueue \<Rightarrow> DefaultQueue \<times> queue_effect list" where
  "DefaultQueue_Clear q = (q, [])"

text \<open>
  \<^verbatim>\<open>func (q *DefaultQueue) Get(id string) *Item { return q.Get(id) }\<close>: the body is
  the call itself. A call that does not return has the value \<open>None\<close>.
\<close>

partial_function (option) DefaultQueue_Get :: "DefaultQueue \<Rightarrow> string \<Rightarrow> Item option option" where
  "DefaultQueue_Get q ident = DefaultQueue_Get q ident"

text \<open>\<^verbatim>\<open>Send\<close> returns \<^verbatim>\<open>nil\<close>, the value \<open>None\<close> of the error.\<close>

definition DefaultQueue_Send :: "DefaultQueue \<Rightarrow> (DefaultQueue \<times> queue_effect list) \<times> string option" where
  "DefaultQueue_Send q = ((q, []), None)"

section \<open>Helpers of the package that the server calls\<close>

text \<open>
  Modelled from the spec: the message constructors (\<^verbatim>\<open>NewMessage\<close>, \<^verbatim>\<open>EmptyMessage\<close>,
  \<^verbatim>\<open>NewMessageOfType\<close>, \<^verbatim>\<open>NotFoundMessage\<close> and the other status messages) are not
  among the sources. Each takes a message id and a type only, and is taken to build the
  message of that type and id with the status code of its name, an empty token, no
  option and no payload.
\<close>

definition NewMessage :: "MessageType \<Rightarrow> CoapCode \<Rightarrow> 16 word \<Rightarrow> Message" where
  "NewMessage t c mid =
     \<lparr>MessageType = t, Code = c, MessageId = mid, Token = [], Options = [], Payload = []\<rparr>"

definition NewMessageOfType :: "MessageType \<Rightarrow> 16 word \<Rightarrow> Message" where
  "NewMessageOfType t mid = NewMessage t COAPCODE_0_EMPTY mid"

definition EmptyMessage :: "16 word \<Rightarrow> MessageType \<Rightarrow> Message" where
  "EmptyMessage mid t = NewMessage t COAPCODE_0_EMPTY mid"

definition NotImplementedMessage :: "16 word \<Rightarrow> MessageType \<Rightarrow> Message" where
  "NotImplementedMessage mid t = NewMessage t COAPCODE_501_NOT_IMPLEMENTED mid"

definition BadOptionMessage :: "16 word \<Rightarrow> MessageType \<Rightarrow> Message" where
  "BadOptionMessage mid t = NewMessage t COAPCODE_402_BAD_OPTION mid"

definition NotFoundMessage :: "16 word \<Rightarrow> MessageType \<Rightarrow> Message" where
  "NotFoundMessage mid t = NewMessage t COAPCODE_404_NOT_FOUND mid"

definition MethodNotAllowedMessage :: "16 word \<Rightarrow> MessageType \<Rightarrow> Message" where
  "MethodNotAllowedMessage mid t = NewMessage t COAPCODE_405_METHOD_NOT_ALLOWED mid"

definition UnsupportedContentFormatMessage :: "16 word \<Rightarrow> MessageType \<Rightarrow> Message" where
  "UnsupportedContentFormatMessage mid t =
     NewMessage t COAPCODE_415_UNSUPPORTED_CONTENT_FORMAT mid"

text \<open>
  Modelled from the spec: the option accessors of \<^verbatim>\<open>Message\<close> are not among the sources.
  The options are the ordered sequence of the spec: \<^verbatim>\<open>AddOption\<close> appends one,
  \<^verbatim>\<open>GetOptions\<close> selects those of a code in order, \<^verbatim>\<open>GetOption\<close> is the first of
  them (\<^verbatim>\<open>nil\<close> when there is none), and \<^verbatim>\<open>CloneOptions\<close> appends the options of
  the listed codes of another message.
\<close>

definition AddOption :: "Message \<Rightarrow> OptionCode \<Rightarrow> OptionValue \<Rightarrow> Message" where
  "AddOption m c v = m\<lparr>Options := Options m @ [\<lparr>OptCode = c, Value = Some v\<rparr>]\<rparr>"

definition GetOptions :: "Message \<Rightarrow> OptionCode \<Rightarrow> CoapOption list" where
  "GetOptions m c = filter (\<lambda>opt. OptCode opt = c) (Options m)"

definition GetOption :: "Message \<Rightarrow> OptionCode \<Rightarrow> CoapOption option" where
  "GetOption m c = find (\<lambda>opt. OptCode opt = c) (Options m)"

definition CloneOptions :: "Message \<Rightarrow> Message \<Rightarrow> OptionCode list \<Rightarrow> Message" where
  "CloneOptions m cm opts = m\<lparr>Options := Options m @ concat (map (GetOptions cm) opts)\<rparr>"

text \<open>
  Modelled from the spec: \<^verbatim>\<open>Route\<close> and the responses are not among the sources. A
  route exposes a handler from a request to a response and an \<^verbatim>\<open>AutoAck\<close> flag; a
  handler that produces no response returns \<^verbatim>\<open>NilResponse\<close>. A handler is taken as a
  function of the request: what else it may do is outside the server.
\<close>

datatype CoapResponse = NilResponse | Response Message

record Route =
  Path :: string
  Method :: string
  AutoAck :: bool
  Handler :: "CoapRequest \<Rightarrow> CoapResponse"

datatype error =
  ERR_UNKNOWN_CRITICAL_OPTION
  | ERR_NO_MATCHING_ROUTE
  | ERR_NO_MATCHING_METHOD
  | ERR_UNSUPPORTED_CONTENT_FORMAT
  | ERR_OTHER string

datatype ProxyHandler = NullProxyHandler | CoapHttpProxyHandler

text \<open>
  The collaborators that the server calls and that are not among the sources are
  parameters: the route table's \<^verbatim>\<open>MatchingRoute\<close> (an error, or a route with the path
  attributes), the proxy tests, \<^verbatim>\<open>GetUriPath\<close>, \<^verbatim>\<open>MethodString\<close>,
  \<^verbatim>\<open>ValidateMessage\<close> (\<open>None\<close> for \<^verbatim>\<open>nil\<close>), \<^verbatim>\<open>NewPathOptions\<close>, the id that
  \<^verbatim>\<open>GenerateMessageId\<close> returns and the reading of the clock. \<open>IsHttpUri\<close> stands for
  \<^verbatim>\<open>IsHttpUri(msg.GetOption(OPTION_PROXY_URI).StringValue())\<close> as a function of what
  \<^verbatim>\<open>GetOption\<close> returns.
\<close>

record Env =
  MatchingRoute ::
    "string \<Rightarrow> string \<Rightarrow> CoapOption list \<Rightarrow> Route list
       \<Rightarrow> error + (Route \<times> (string \<times> string) list)"
  IsProxyRequest :: "Message \<Rightarrow> bool"
  IsCoapUri :: "Message \<Rightarrow> bool"
  IsHttpUri :: "CoapOption option \<Rightarrow> bool"
  GetUriPath :: "Message \<Rightarrow> string"
  MethodString :: "CoapCode \<Rightarrow> string"
  ValidateMessage :: "Message \<Rightarrow> error option"
  NewPathOptions :: "string \<Rightarrow> CoapOption list"
  GenerateMessageId :: "16 word"
  Now :: time

section \<open>The server: state\<close>

text \<open>
  The token of an observation is the field \<^verbatim>\<open>Token\<close> of the source, named \<open>ObsToken\<close>
  here beside the message's field. \<^verbatim>\<open>NotifyCount\<close> is a Go \<^verbatim>\<open>int\<close>, taken as 64 bits
  wide: \<open>int_incr\<close> is its \<^verbatim>\<open>++\<close>, which wraps around.
\<close>

record Observation =
  Addr :: UDPAddr
  ObsToken :: string
  Resource :: string
  NotifyCount :: int

definition NewObservation :: "UDPAddr \<Rightarrow> string \<Rightarrow> string \<Rightarrow> Observation" where
  "NewObservation addr token resource =
     \<lparr>Addr = addr, ObsToken = token, Resource = resource, NotifyCount = 0\<rparr>"

definition int_incr :: "int \<Rightarrow> int" where
  "int_incr n = (if n = 2 ^ 63 - 1 then - (2 ^ 63) else n + 1)"

text \<open>
  The fields of \<^verbatim>\<open>CoapServer\<close> that the dispatcher, the purge and the registry read or
  write. A map of Go is a partial function, the missing key (for which Go yields \<^verbatim>\<open>nil\<close>)
  being \<open>None\<close>. The sockets and the event callbacks are not state of the model: what
  the server sends and fires is the trace that each operation returns.
\<close>

record CoapServer =
  messageIds :: "16 word \<rightharpoonup> time"
  routes :: "Route list"
  observations :: "string \<rightharpoonup> Observation list"
  fnHandleCoapHttpProxy :: ProxyHandler
  fnHandleCoapCoapProxy :: ProxyHandler
  queue :: DefaultQueue

definition NewServer :: CoapServer where
  "NewServer =
     \<lparr>messageIds = Map.empty, routes = [], observations = Map.empty,
      fnHandleCoapHttpProxy = NullProxyHandler, fnHandleCoapCoapProxy = NullProxyHandler,
      queue = NewDefaultQueue\<rparr>"

datatype action =
  EventMessage Message bool
  | EventError error
  | EventNotify string string Message
  | EventObserve string Message
  | EventObserveCancelled string Message
  | SendMessageTo Message UDPAddr
  | ProxyCall ProxyHandler Message UDPAddr
  | HandlerCall Route CoapRequest

text \<open>What a trace sent, and which handlers it invoked, in order.\<close>

fun sent_messages :: "action list \<Rightarrow> (Message \<times> UDPAddr) list" where
  "sent_messages [] = []"
| "sent_messages (SendMessageTo m a # tr) = (m, a) # sent_messages tr"
| "sent_messages (_ # tr) = sent_messages tr"

fun handler_calls :: "action list \<Rightarrow> (Route \<times> CoapRequest) list" where
  "handler_calls [] = []"
| "handler_calls (HandlerCall r req # tr) = (r, req) # handler_calls tr"
| "handler_calls (_ # tr) = handler_calls tr"

section \<open>The observation registry\<close>

definition observationsOf :: "CoapServer \<Rightarrow> string \<Rightarrow> Observation list" where
  "observationsOf s resource =
     (case observations s resource of None \<Rightarrow> [] | Some obs \<Rightarrow> obs)"

text \<open>\<^verbatim>\<open>append\<close> to the slice of the resource, which is \<^verbatim>\<open>nil\<close> for a missing key.\<close>

definition addObservation :: "CoapServer \<Rightarrow> string \<Rightarrow> string \<Rightarrow> UDPAddr \<Rightarrow> CoapServer" where
  "addObservation s resource token addr =
     s\<lparr>observations := (observations s)
         (resource \<mapsto> observationsOf s resource @ [NewObservation addr token resource])\<rparr>"

fun hasObservation_loop :: "Observation list \<Rightarrow> UDPAddr \<Rightarrow> bool" where
  "hasObservation_loop [] addr = False"
| "hasObservation_loop (ob # obs) addr =
     (if Addr ob = addr then True else hasObservation_loop obs addr)"

definition hasObservation :: "CoapServer \<Rightarrow> string \<Rightarrow> UDPAddr \<Rightarrow> bool" where
  "hasObservation s resource addr =
     (case observations s resource of
        None \<Rightarrow> False
      | Some obs \<Rightarrow> hasObservation_loop obs addr)"

text \<open>
  The loop of \<^verbatim>\<open>removeObservation\<close>: at the first index whose address matches, the
  slice without that element (\<^verbatim>\<open>append(obs[:idx], obs[idx+1:]...)\<close>); \<open>None\<close> when the
  loop ends without a match and nothing is assigned.
\<close>

fun removeObservation_loop :: "Observation list \<Rightarrow> UDPAddr \<Rightarrow> Observation list option" where
  "removeObservation_loop [] addr = None"
| "removeObservation_loop (ob # obs) addr =
     (if Addr ob = addr then Some obs
      else (case removeObservation_loop obs addr of
              None \<Rightarrow> None
            | Some obs' \<Rightarrow> Some (ob # obs')))"

definition removeObservation :: "CoapServer \<Rightarrow> string \<Rightarrow> UDPAddr \<Rightarrow> CoapServer" where
  "removeObservation s resource addr =
     (case observations s resource of
        None \<Rightarrow> s
      | Some obs \<Rightarrow>
          (case removeObservation_loop obs addr of
             None \<Rightarrow> s
           | Some obs' \<Rightarrow> s\<lparr>observations := (observations s)(resource \<mapsto> obs')\<rparr>))"

section \<open>Notifications\<close>

text \<open>
  Modelled from the spec: \<^verbatim>\<open>NewRequest\<close> and the setters of a request are not among
  the sources. \<^verbatim>\<open>NewRequest\<close> wraps the new message of a type, code and id;
  \<^verbatim>\<open>SetToken\<close> and \<^verbatim>\<open>SetStringPayload\<close> overwrite the token and the payload, and
  \<^verbatim>\<open>SetRequestURI\<close> adds the path options of the URI. Only the message of the request
  matters to \<^verbatim>\<open>NotifyChange\<close>.
\<close>

definition NewRequest :: "MessageType \<Rightarrow> CoapCode \<Rightarrow> 16 word \<Rightarrow> Message" where
  "NewRequest t c mid = NewMessage t c mid"

definition SetToken :: "Message \<Rightarrow> string \<Rightarrow> Message" where
  "SetToken m t = m\<lparr>Token := t\<rparr>"

definition SetStringPayload :: "Message \<Rightarrow> string \<Rightarrow> Message" where
  "SetStringPayload m v = m\<lparr>Payload := v\<rparr>"

definition SetRequestURI :: "Env \<Rightarrow> Message \<Rightarrow> string \<Rightarrow> Message" where
  "SetRequestURI env m uri = m\<lparr>Options := Options m @ NewPathOptions env uri\<rparr>"

text \<open>
  The loop of \<^verbatim>\<open>NotifyChange\<close> over the observations of the resource. There is one
  request \<open>req\<close> for all rounds, an object that every round updates in place: token,
  payload, path options, then the Observe option with the counter of the observation,
  which the round has incremented in place. The loop returns the observations with their
  new counters and the successive states of the request, four for each round.
\<close>

fun NotifyChange_loop ::
  "Env \<Rightarrow> Message \<Rightarrow> string \<Rightarrow> Observation list \<Rightarrow> Observation list \<times> Message list" where
  "NotifyChange_loop env req v [] = ([], [])"
| "NotifyChange_loop env req v (r # t) =
     (let req1 = SetToken req (ObsToken r);
          req2 = SetStringPayload req1 v;
          req3 = SetRequestURI env req2 (Resource r);
          r' = r\<lparr>NotifyCount := int_incr (NotifyCount r)\<rparr>;
          req4 = AddOption req3 OPTION_OBSERVE (IntValue (NotifyCount r'));
          rest = NotifyChange_loop env req4 v t
      in (r' # fst rest, [req1, req2, req3, req4] @ snd rest))"

text \<open>
  Every round ends with \<^verbatim>\<open>go c.SendTo(req, r.Addr)\<close>: the address is read at once, the
  request is shared, and the goroutine reads it (\<^verbatim>\<open>req.GetMessage()\<close>) when it runs,
  while the loop goes on. The schedule is the parameter \<open>delay\<close>: the goroutine of round
  \<open>i\<close> is started after the four updates of its round and reads the request after
  \<open>delay i\<close> more updates, at the latest in its last state. The trace lists the sends in
  the order in which they are started.
\<close>

definition NotifyChange ::
  "Env \<Rightarrow> (nat \<Rightarrow> nat) \<Rightarrow> CoapServer \<Rightarrow> string \<Rightarrow> string \<Rightarrow> bool
     \<Rightarrow> CoapServer \<times> action list" where
  "NotifyChange env delay c resource v confirm =
     (case observations c resource of
        None \<Rightarrow> (c, [])
      | Some t \<Rightarrow>
          (let req = (if confirm
                      then NewRequest TYPE_CONFIRMABLE COAPCODE_205_CONTENT (GenerateMessageId env)
                      else NewRequest TYPE_ACKNOWLEDGEMENT COAPCODE_205_CONTENT (GenerateMessageId env));
               res = NotifyChange_loop env req v t;
               states = snd res
           in (c\<lparr>observations := (observations c)(resource \<mapsto> fst res)\<rparr>,
               map (\<lambda>i. SendMessageTo
                           (states ! min (4 * i + 3 + delay i) (length states - 1))
                           (Addr (t ! i)))
                 [0..<length t])))"

section \<open>The purge of the message ids\<close>

text \<open>
  \<^verbatim>\<open>MESSAGEID_PURGE_DURATION\<close> is a constant of the package that is not among the
  sources: it is the parameter \<open>D\<close>. \<^verbatim>\<open>time.Second\<close> is 1000000000, a duration being
  a number of nanoseconds. The ticker of \<^verbatim>\<open>handleMessageIdPurge\<close> fires every
  \<^verbatim>\<open>MESSAGEID_PURGE_DURATION * time.Second\<close>.
\<close>

definition Second :: int where
  "Second = 1000000000"

definition purge_ticker_period :: "int \<Rightarrow> int" where
  "purge_ticker_period D = D * Second"

text \<open>
  One firing of the ticker: the loop over the map deletes the entry of \<open>k\<close> when
  \<^verbatim>\<open>elapsed > MESSAGEID_PURGE_DURATION\<close>, where \<^verbatim>\<open>elapsed := time.Since(v)\<close> is read at
  the moment \<open>clock k\<close> at which the loop visits \<open>k\<close>.
\<close>

definition handleMessageIdPurge_tick ::
  "int \<Rightarrow> (16 word \<Rightarrow> time) \<Rightarrow> CoapServer \<Rightarrow> CoapServer" where
  "handleMessageIdPurge_tick D clock s =
     s\<lparr>messageIds :=
         (\<lambda>k. case messageIds s k of
                None \<Rightarrow> None
              | Some v \<Rightarrow> (let elapsed = clock k - v in if elapsed > D then None else Some v))\<rparr>"

section \<open>The dispatcher\<close>

text \<open>
  The block of \<^verbatim>\<open>handleMessage\<close> for a Confirmable request with an Observe option
  whose value is \<^verbatim>\<open>nil\<close>. It returns the server, the message of the request (the
  request holds a pointer to it, so the option added at the end is seen by the handler)
  and the events fired.
\<close>

definition handleObserve ::
  "Env \<Rightarrow> CoapServer \<Rightarrow> Message \<Rightarrow> UDPAddr \<Rightarrow> CoapServer \<times> Message \<times> action list" where
  "handleObserve env s msg addr =
     (if MessageType msg = TYPE_CONFIRMABLE then
        (case GetOption msg OPTION_OBSERVE of
           None \<Rightarrow> (s, msg, [])
         | Some obsOpt \<Rightarrow>
             (if Value obsOpt = None then
                (let resource = GetUriPath env msg in
                 if hasObservation s resource addr
                 then (removeObservation s resource addr,
                       AddOption msg OPTION_OBSERVE (IntValue 1),
                       [EventObserveCancelled resource msg])
                 else (addObservation s (GetUriPath env msg) (Token msg) addr,
                       AddOption msg OPTION_OBSERVE (IntValue 1),
                       [EventObserve resource msg]))
              else (s, msg, [])))
      else (s, msg, []))"

text \<open>The block under \<^verbatim>\<open>if err == nil\<close>: the request has a route and is no duplicate.\<close>

definition handleRouted ::
  "Env \<Rightarrow> CoapServer \<Rightarrow> Message \<Rightarrow> UDPAddr \<Rightarrow> Route \<Rightarrow> (string \<times> string) list
     \<Rightarrow> CoapServer \<times> action list" where
  "handleRouted env s msg addr route attrs =
     (let s1 = s\<lparr>messageIds := (messageIds s)(MessageId msg \<mapsto> Now env)\<rparr>;
          ack = NewMessageOfType TYPE_ACKNOWLEDGEMENT (MessageId msg);
          ackTrace = (if MessageType msg = TYPE_CONFIRMABLE \<and> AutoAck route
                      then [EventMessage ack False, SendMessageTo ack addr] else []);
          obs = handleObserve env s1 msg addr;
          req = \<lparr>req_msg = fst (snd obs), req_attrs = attrs, req_addr = addr\<rparr>;
          respTrace =
            (case Handler route req of
               NilResponse \<Rightarrow> []
             | Response respMsg \<Rightarrow>
                 (if ValidateMessage env respMsg = None
                  then [EventMessage respMsg False, SendMessageTo respMsg addr] else []))
      in (fst obs, ackTrace @ snd (snd obs) @ [HandlerCall route req] @ respTrace))"

text \<open>The duplicate message id check, once the id is found in \<^verbatim>\<open>messageIds\<close>.\<close>

definition handleDuplicate :: "Message \<Rightarrow> UDPAddr \<Rightarrow> action list" where
  "handleDuplicate msg addr =
     (if MessageType msg = TYPE_CONFIRMABLE then
        (let ret = CloneOptions (EmptyMessage (MessageId msg) TYPE_RESET) msg
                     [OPTION_URI_PATH, OPTION_CONTENT_FORMAT]
         in [EventMessage ret False, SendMessageTo ret addr])
      else [])"

text \<open>The branch of a request that is no proxy request: route, duplicate check, handler.\<close>

definition handleRequest ::
  "Env \<Rightarrow> CoapServer \<Rightarrow> Message \<Rightarrow> UDPAddr \<Rightarrow> CoapServer \<times> action list" where
  "handleRequest env s msg addr =
     (case MatchingRoute env (GetUriPath env msg) (MethodString env (Code msg))
             (GetOptions msg OPTION_CONTENT_FORMAT) (routes s) of
        Inl err \<Rightarrow>
          (if err = ERR_NO_MATCHING_ROUTE then
             (let ret = (CloneOptions (NotFoundMessage (MessageId msg) TYPE_ACKNOWLEDGEMENT) msg
                           [OPTION_URI_PATH, OPTION_CONTENT_FORMAT])\<lparr>Token := Token msg\<rparr>
              in (s, [EventMessage ret False, SendMessageTo ret addr, EventError err]))
           else if err = ERR_NO_MATCHING_METHOD then
             (let ret = CloneOptions (MethodNotAllowedMessage (MessageId msg) TYPE_ACKNOWLEDGEMENT) msg
                          [OPTION_URI_PATH, OPTION_CONTENT_FORMAT]
              in (s, [EventMessage ret False, SendMessageTo ret addr, EventError err]))
           else if err = ERR_UNSUPPORTED_CONTENT_FORMAT then
             (let ret = CloneOptions
                          (UnsupportedContentFormatMessage (MessageId msg) TYPE_ACKNOWLEDGEMENT) msg
                          [OPTION_URI_PATH, OPTION_CONTENT_FORMAT]
              in (s, [EventMessage ret False, SendMessageTo ret addr, EventError err]))
           else if messageIds s (MessageId msg) \<noteq> None then (s, handleDuplicate msg addr)
           else (s, []))
      | Inr (route, attrs) \<Rightarrow>
          (if messageIds s (MessageId msg) \<noteq> None then (s, handleDuplicate msg addr)
           else handleRouted env s msg addr route attrs))"

text \<open>
  \<^verbatim>\<open>handleMessage\<close>, from the decoded message on: \<open>msg\<close> and \<open>err\<close> are what
  \<^verbatim>\<open>BytesToMessage\<close> returned (it is not among the sources), \<open>addr\<close> is the sender. One
  call is taken alone: the server runs each call in a goroutine of its own.
\<close>

definition handleMessage ::
  "Env \<Rightarrow> CoapServer \<Rightarrow> Message \<Rightarrow> error option \<Rightarrow> UDPAddr \<Rightarrow> CoapServer \<times> action list" where
  "handleMessage env s msg err addr =
     (if MessageType msg = TYPE_ACKNOWLEDGEMENT then
        (if GetOption msg OPTION_OBSERVE \<noteq> None
         then (s, [EventMessage msg True, EventNotify (GetUriPath env msg) (Payload msg) msg])
         else (s, [EventMessage msg True]))
      else if MessageType msg \<noteq> TYPE_RESET then
        (if Code msg \<noteq> GET \<and> Code msg \<noteq> POST \<and> Code msg \<noteq> PUT \<and> Code msg \<noteq> DELETE then
           (let resp = CloneOptions (NotImplementedMessage (MessageId msg) TYPE_ACKNOWLEDGEMENT) msg
                         [OPTION_URI_PATH, OPTION_CONTENT_FORMAT]
            in (s, [EventMessage msg True, EventMessage resp False, SendMessageTo resp addr]))
         else
           (let errTrace = (case err of None \<Rightarrow> [] | Some e \<Rightarrow> [EventError e]) in
            if err = Some ERR_UNKNOWN_CRITICAL_OPTION then
              (if MessageType msg = TYPE_CONFIRMABLE
               then (s, EventMessage msg True # errTrace @
                        [SendMessageTo (BadOptionMessage (MessageId msg) TYPE_ACKNOWLEDGEMENT) addr])
               else (s, EventMessage msg True # errTrace))
            else if IsProxyRequest env msg then
              (if IsCoapUri env msg
               then (s, EventMessage msg True # errTrace @
                        [ProxyCall (fnHandleCoapCoapProxy s) msg addr])
               else if IsHttpUri env (GetOption msg OPTION_PROXY_URI)
               then (s, EventMessage msg True # errTrace @
                        [ProxyCall (fnHandleCoapHttpProxy s) msg addr])
               else (s, EventMessage msg True # errTrace))
            else
              (let res = handleRequest env s msg addr
               in (fst res, EventMessage msg True # errTrace @ snd res))))
      else (s, [EventMessage msg True]))"

section \<open>Example inputs\<close>

text \<open>
  A route table and peers to run the server on: \<open>ex_MatchingRoute\<close> finds the first route
  of the path and then compares the method, the path of a message is the value of its
  first URI-Path option, and every response is valid.
\<close>

definition ex_MatchingRoute ::
  "string \<Rightarrow> string \<Rightarrow> CoapOption list \<Rightarrow> Route list \<Rightarrow> error + (Route \<times> (string \<times> string) list)" where
  "ex_MatchingRoute path method cf rs =
     (case find (\<lambda>r. Path r = path) rs of
        None \<Rightarrow> Inl ERR_NO_MATCHING_ROUTE
      | Some r \<Rightarrow> (if Method r = method then Inr (r, []) else Inl ERR_NO_MATCHING_METHOD))"

definition ex_GetUriPath :: "Message \<Rightarrow> string" where
  "ex_GetUriPath m =
     (case GetOption m OPTION_URI_PATH of
        None \<Rightarrow> []
      | Some opt \<Rightarrow> (case Value opt of Some (StringValue p) \<Rightarrow> p | _ \<Rightarrow> []))"

definition ex_MethodString :: "CoapCode \<Rightarrow> string" where
  "ex_MethodString c =
     (if c = GET then ''GET'' else if c = POST then ''POST''
      else if c = PUT then ''PUT'' else if c = DELETE then ''DELETE'' else [])"

definition ex_env :: Env where
  "ex_env =
     \<lparr>MatchingRoute = ex_MatchingRoute,
      IsProxyRequest = (\<lambda>m. GetOption m OPTION_PROXY_URI \<noteq> None),
      IsCoapUri = (\<lambda>m. False),
      IsHttpUri = (\<lambda>opt. False),
      GetUriPath = ex_GetUriPath,
      MethodString = ex_MethodString,
      ValidateMessage = (\<lambda>m. None),
      NewPathOptions = (\<lambda>uri. [\<lparr>OptCode = OPTION_URI_PATH, Value = Some (StringValue uri)\<rparr>]),
      GenerateMessageId = 4711,
      Now = 1000\<rparr>"

definition ex_peer :: UDPAddr where
  "ex_peer = ''[::1]:40000''"

text \<open>A handler that answers every request with a piggybacked content response.\<close>

definition ex_handler :: "CoapRequest \<Rightarrow> CoapResponse" where
  "ex_handler req =
     Response ((NewMessage TYPE_ACKNOWLEDGEMENT COAPCODE_205_CONTENT (MessageId (req_msg req)))
                 \<lparr>Token := Token (req_msg req), Payload := ''21.5''\<rparr>)"

definition ex_route :: Route where
  "ex_route = \<lparr>Path = ''temp'', Method = ''GET'', AutoAck = True, Handler = ex_handler\<rparr>"

definition ex_server :: CoapServer where
  "ex_server = NewServer\<lparr>routes := [ex_route]\<rparr>"

text \<open>A request for \<^verbatim>\<open>/temp\<close> with message id 7 and token \<^verbatim>\<open>tk\<close>, of a type and a method.\<close>

definition ex_request :: "MessageType \<Rightarrow> CoapCode \<Rightarrow> Message" where
  "ex_request t c =
     \<lparr>MessageType = t, Code = c, MessageId = 7, Token = ''tk'',
      Options = [\<lparr>OptCode = OPTION_URI_PATH, Value = Some (StringValue ''temp'')\<rparr>],
      Payload = []\<rparr>"

text \<open>The same request with an Observe option whose value is \<^verbatim>\<open>nil\<close>.\<close>

definition ex_observe_request :: "MessageType \<Rightarrow> Message" where
  "ex_observe_request t =
     (ex_request t GET)\<lparr>Options :=
        [\<lparr>OptCode = OPTION_URI_PATH, Value = Some (StringValue ''temp'')\<rparr>,
         \<lparr>OptCode = OPTION_OBSERVE, Value = None\<rparr>]\<rparr>"

text \<open>A delivery item that waits in the queue for the acknowledgement of message 7.\<close>

definition ex_item :: Item where
  "ex_item =
     \<lparr>ivalue = Some \<lparr>req_msg = ex_request TYPE_CONFIRMABLE GET, req_attrs = [], req_addr = ex_peer\<rparr>,
      priority = 0, index = 0, retries = 0, ts = Some 0\<rparr>"

text \<open>An observation of \<^verbatim>\<open>temp\<close> by the peer, notified three times so far.\<close>

definition ex_observation :: Observation where
  "ex_observation = \<lparr>Addr = ex_peer, ObsToken = ''tk'', Resource = ''temp'', NotifyCount = 3\<rparr>"

text \<open>A second peer and its observation of \<^verbatim>\<open>temp\<close>, notified ten times so far.\<close>

definition ex_peer2 :: UDPAddr where
  "ex_peer2 = ''[::1]:40001''"

definition ex_observation2 :: Observation where
  "ex_observation2 = \<lparr>Addr = ex_peer2, ObsToken = ''tk2'', Resource = ''temp'', NotifyCount = 10\<rparr>"

section \<open>Facts about traces and the registry loops\<close>

lemma sent_messages_append: "sent_messages (tr @ tr') = sent_messages tr @ sent_messages tr'"
  by (induction tr rule: sent_messages.induct) simp_all

lemma handler_calls_append: "handler_calls (tr @ tr') = handler_calls tr @ handler_calls tr'"
  by (induction tr rule: handler_calls.induct) simp_all

lemma hasObservation_loop_iff: "hasObservation_loop obs a \<longleftrightarrow> a \<in> set (map Addr obs)"
  by (induction obs) auto

lemma hasObservation_iff: "hasObservation s r a \<longleftrightarrow> a \<in> set (map Addr (observationsOf s r))"
  by (simp add: hasObservation_def observationsOf_def hasObservation_loop_iff split: option.splits)

lemma removeObservation_loop_None:
  "removeObservation_loop obs a = None \<longleftrightarrow> a \<notin> set (map Addr obs)"
  by (induction obs) (auto split: option.splits)

lemma removeObservation_loop_subset:
  "removeObservation_loop obs a = Some obs' \<Longrightarrow> set obs' \<subseteq> set obs"
  by (induction obs arbitrary: obs') (auto split: if_splits option.splits)


lemma removeObservation_loop_distinct:
  "removeObservation_loop obs a = Some obs' \<Longrightarrow> distinct (map Addr obs)
     \<Longrightarrow> distinct (map Addr obs')"
proof (induction obs arbitrary: obs')
  case Nil
  then show ?case by simp
next
  case (Cons ob obs)
  show ?case
  proof (cases "Addr ob = a")
    case True
    with Cons.prems show ?thesis by simp
  next
    case False
    with Cons.prems obtain rest
      where rest: "removeObservation_loop obs a = Some rest" "obs' = ob # rest"
      by (auto split: option.splits)
    from Cons.IH [OF rest(1)] Cons.prems(2) have "distinct (map Addr rest)"
      by simp
    moreover from removeObservation_loop_subset [OF rest(1)] Cons.prems(2)
    have "Addr ob \<notin> set (map Addr rest)"
      by auto
    ultimately show ?thesis
      using rest(2) by simp
  qed
qed

lemma observationsOf_addObservation:
  "observationsOf (addObservation s r tok a) r' =
     (if r' = r then observationsOf s r @ [NewObservation a tok r] else observationsOf s r')"
  by (simp add: observationsOf_def addObservation_def)

lemma removeObservation_keeps_distinct:
  "distinct (map Addr (observationsOf s r')) \<Longrightarrow>
   distinct (map Addr (observationsOf (removeObservation s r a) r'))"
  by (auto simp: observationsOf_def removeObservation_def
      dest: removeObservation_loop_distinct split: option.splits)

lemma removeObservation_absent:
  assumes "\<not> hasObservation s r a"
  shows "removeObservation s r a = s"
proof (cases "observations s r")
  case None
  then show ?thesis
    by (simp add: removeObservation_def)
next
  case (Some obs)
  with assms have "removeObservation_loop obs a = None"
    by (simp add: hasObservation_def hasObservation_loop_iff removeObservation_loop_None)
  with Some show ?thesis
    by (simp add: removeObservation_def)
qed

lemmas ex_defs =
  ex_env_def ex_MatchingRoute_def ex_GetUriPath_def ex_MethodString_def ex_peer_def
  ex_handler_def ex_route_def ex_server_def ex_request_def ex_observe_request_def
  ex_item_def ex_observation_def ex_peer2_def ex_observation2_def

lemmas dispatch_defs =
  handleMessage_def handleRequest_def handleRouted_def handleObserve_def handleDuplicate_def

lemmas message_defs =
  NewMessage_def NewMessageOfType_def EmptyMessage_def NotImplementedMessage_def
  BadOptionMessage_def NotFoundMessage_def MethodNotAllowedMessage_def
  UnsupportedContentFormatMessage_def CloneOptions_def GetOptions_def GetOption_def
  AddOption_def

lemmas registry_defs =
  NewServer_def NewDefaultQueue_def hasObservation_def addObservation_def
  removeObservation_def observationsOf_def NewObservation_def

section \<open>The observation registry: registering and cancelling\<close>


text \<open>
  C5 (the claim: registering an Observation for a (resource, peer) pair that already
  exists leaves the registry unchanged; cancelling one that does not exist leaves it
  unchanged; so at most one Observation exists per pair). \<^verbatim>\<open>addObservation\<close> has no
  check of its own: on a pair that is already registered it appends a second
  Observation.
\<close>

theorem addObservation_existing_pair_grows:
  "hasObservation (addObservation NewServer ''temp'' ''tk'' ex_peer) ''temp'' ex_peer
   \<and> length (observationsOf (addObservation NewServer ''temp'' ''tk'' ex_peer) ''temp'') = 1
   \<and> length (observationsOf
        (addObservation (addObservation NewServer ''temp'' ''tk'' ex_peer) ''temp'' ''tk'' ex_peer)
        ''temp'') = 2"
  by (simp add: registry_defs ex_peer_def)

text \<open>
  C5 as amended. \<^verbatim>\<open>addObservation\<close> always appends a new Observation with counter 0 to
  the resource and leaves the other resources alone, whether the pair exists or not; for
  a pair that exists the resource then holds two Observations of that peer. Cancelling an
  Observation for a pair that does not exist leaves the server unchanged. Registering a
  pair that does not exist, which is the only way the dispatcher calls
  \<^verbatim>\<open>addObservation\<close>, keeps the peers of every resource pairwise different, and so does
  \<^verbatim>\<open>removeObservation\<close> for any peer.
\<close>

theorem registry_add_remove:
  "observationsOf (addObservation s r tok a) r = observationsOf s r @ [NewObservation a tok r]
   \<and> NotifyCount (NewObservation a tok r) = 0
   \<and> Addr (NewObservation a tok r) = a
   \<and> (r' \<noteq> r \<longrightarrow> observations (addObservation s r tok a) r' = observations s r')
   \<and> (hasObservation s r a \<longrightarrow>
        \<not> distinct (map Addr (observationsOf (addObservation s r tok a) r)))
   \<and> (\<not> hasObservation s r a \<longrightarrow> removeObservation s r a = s)
   \<and> (\<not> hasObservation s r a \<and> distinct (map Addr (observationsOf s r')) \<longrightarrow>
        distinct (map Addr (observationsOf (addObservation s r tok a) r')))
   \<and> (distinct (map Addr (observationsOf s r')) \<longrightarrow>
        distinct (map Addr (observationsOf (removeObservation s r b) r')))"
proof -
  have app: "observationsOf (addObservation s r tok a) r
      = observationsOf s r @ [NewObservation a tok r]"
    by (simp add: observationsOf_addObservation)
  have other: "r' \<noteq> r \<longrightarrow> observations (addObservation s r tok a) r' = observations s r'"
    by (simp add: addObservation_def)
  have twice: "\<not> distinct (map Addr (observationsOf (addObservation s r tok a) r))"
    if "hasObservation s r a"
    using that by (simp add: app hasObservation_iff NewObservation_def)
  have keep: "distinct (map Addr (observationsOf (addObservation s r tok a) r'))"
    if "\<not> hasObservation s r a" and "distinct (map Addr (observationsOf s r'))"
    using that by (auto simp: observationsOf_addObservation hasObservation_iff NewObservation_def)
  show ?thesis
    using app other twice keep removeObservation_absent [of s r a]
      removeObservation_keeps_distinct [of s r' r b]
    by (simp add: NewObservation_def)
qed

theorem registry_add_remove_witness:
  "hasObservation (ex_server\<lparr>observations := [''temp'' \<mapsto> [ex_observation2, ex_observation]]\<rparr>)
     ''temp'' ex_peer
   \<and> map Addr (observationsOf (addObservation
        (ex_server\<lparr>observations := [''temp'' \<mapsto> [ex_observation2, ex_observation]]\<rparr>)
        ''temp'' ''tk'' ex_peer) ''temp'') = [ex_peer2, ex_peer, ex_peer]
   \<and> \<not> distinct (map Addr (observationsOf (addObservation
        (ex_server\<lparr>observations := [''temp'' \<mapsto> [ex_observation2, ex_observation]]\<rparr>)
        ''temp'' ''tk'' ex_peer) ''temp''))
   \<and> \<not> hasObservation (ex_server\<lparr>observations := [''temp'' \<mapsto> [ex_observation2]]\<rparr>)
        ''temp'' ex_peer
   \<and> removeObservation (ex_server\<lparr>observations := [''temp'' \<mapsto> [ex_observation2]]\<rparr>)
        ''temp'' ex_peer
       = ex_server\<lparr>observations := [''temp'' \<mapsto> [ex_observation2]]\<rparr>
   \<and> distinct (map Addr (observationsOf (addObservation
        (ex_server\<lparr>observations := [''temp'' \<mapsto> [ex_observation2]]\<rparr>)
        ''temp'' ''tk'' ex_peer) ''temp''))
   \<and> distinct (map Addr (observationsOf (removeObservation
        (ex_server\<lparr>observations := [''temp'' \<mapsto> [ex_observation2, ex_observation]]\<rparr>)
        ''temp'' ex_peer2) ''temp''))"
proof -
  let ?two = "ex_server\<lparr>observations := [''temp'' \<mapsto> [ex_observation2, ex_observation]]\<rparr>"
  let ?one = "ex_server\<lparr>observations := [''temp'' \<mapsto> [ex_observation2]]\<rparr>"
  have has: "hasObservation ?two ''temp'' ex_peer"
    by (simp add: hasObservation_def ex_observation_def ex_observation2_def ex_peer_def
        ex_peer2_def)
  have two: "observationsOf ?two ''temp'' = [ex_observation2, ex_observation]"
    and dtwo: "distinct (map Addr (observationsOf ?two ''temp''))"
    by (simp_all add: observationsOf_def ex_observation_def ex_observation2_def ex_peer_def
        ex_peer2_def)
  have hasnt: "\<not> hasObservation ?one ''temp'' ex_peer"
    by (simp add: hasObservation_def ex_observation2_def ex_peer_def ex_peer2_def)
  have one: "observationsOf ?one ''temp'' = [ex_observation2]"
    and d1: "distinct (map Addr (observationsOf ?one ''temp''))"
    by (simp_all add: observationsOf_def)
  have addrs: "Addr ex_observation2 = ex_peer2" "Addr ex_observation = ex_peer"
    by (simp_all add: ex_observation_def ex_observation2_def)
  from registry_add_remove [of ?two "''temp''" "''tk''" ex_peer "''temp''" ex_peer2]
    registry_add_remove [of ?one "''temp''" "''tk''" ex_peer "''temp''" ex_peer2]
    has two dtwo hasnt one d1 addrs
  show ?thesis
    by simp
qed

section \<open>The dispatcher: Reset messages\<close>

text \<open>
  C7 (the claim: for an inbound Reset the dispatcher calls the scheduler's acknowledge
  operation for the pending item with the same message id, removing it if present, sends
  nothing and invokes no handler). The dispatcher has no branch for a Reset and never
  touches the queue: the item that waits for message 7 is still there after the Reset
  for message 7.
\<close>

theorem reset_leaves_pending_item:
  "MessageType (ex_request TYPE_RESET COAPCODE_0_EMPTY) = TYPE_RESET
   \<and> MessageId (ex_request TYPE_RESET COAPCODE_0_EMPTY) = 7
   \<and> map (map_option (MessageId \<circ> req_msg) \<circ> ivalue) [ex_item] = [Some 7]
   \<and> priorityQueue (queue (fst (handleMessage ex_env
         (ex_server\<lparr>queue := \<lparr>priorityQueue = Some [ex_item]\<rparr>\<rparr>)
         (ex_request TYPE_RESET COAPCODE_0_EMPTY) None ex_peer))) = Some [ex_item]"
  by (simp add: handleMessage_def ex_request_def ex_item_def)

text \<open>
  C7 as amended: for every inbound message of type Reset the dispatcher only reports the
  message to the event sink; it leaves the server as it is (the queue with its pending
  items included), sends no message and invokes no handler.
\<close>

theorem reset_is_ignored:
  assumes "MessageType msg = TYPE_RESET"
  shows "fst (handleMessage env s msg err addr) = s
    \<and> queue (fst (handleMessage env s msg err addr)) = queue s
    \<and> snd (handleMessage env s msg err addr) = [EventMessage msg True]
    \<and> sent_messages (snd (handleMessage env s msg err addr)) = []
    \<and> handler_calls (snd (handleMessage env s msg err addr)) = []"
  using assms by (simp add: handleMessage_def)

theorem reset_is_ignored_witness:
  "MessageType (ex_request TYPE_RESET COAPCODE_0_EMPTY) = TYPE_RESET
   \<and> fst (handleMessage ex_env ex_server (ex_request TYPE_RESET COAPCODE_0_EMPTY) None ex_peer)
       = ex_server
   \<and> sent_messages
        (snd (handleMessage ex_env ex_server (ex_request TYPE_RESET COAPCODE_0_EMPTY) None ex_peer))
       = []
   \<and> handler_calls
        (snd (handleMessage ex_env ex_server (ex_request TYPE_RESET COAPCODE_0_EMPTY) None ex_peer))
       = []"
proof -
  have h: "MessageType (ex_request TYPE_RESET COAPCODE_0_EMPTY) = TYPE_RESET"
    by (simp add: ex_request_def)
  from h reset_is_ignored [OF h, of ex_env ex_server None ex_peer] show ?thesis
    by simp
qed

section \<open>The dispatcher: duplicate message ids\<close>

lemma sent_messages_errTrace:
  "sent_messages (case err of None \<Rightarrow> [] | Some e \<Rightarrow> [EventError e]) = []"
  by (cases err) simp_all

lemma handler_calls_errTrace:
  "handler_calls (case err of None \<Rightarrow> [] | Some e \<Rightarrow> [EventError e]) = []"
  by (cases err) simp_all

text \<open>
  What \<^verbatim>\<open>handleMessage\<close> is for a request that reaches the route table: the type is
  neither Acknowledgement nor Reset, the method is one of the four, the decoder reported
  no unknown critical option, and the message is no proxy request.
\<close>

lemma handleMessage_request:
  assumes "MessageType msg = TYPE_CONFIRMABLE \<or> MessageType msg = TYPE_NONCONFIRMABLE"
    and "Code msg = GET \<or> Code msg = POST \<or> Code msg = PUT \<or> Code msg = DELETE"
    and "err \<noteq> Some ERR_UNKNOWN_CRITICAL_OPTION"
    and "\<not> IsProxyRequest env msg"
  shows "handleMessage env s msg err addr =
    (fst (handleRequest env s msg addr),
     EventMessage msg True # (case err of None \<Rightarrow> [] | Some e \<Rightarrow> [EventError e])
       @ snd (handleRequest env s msg addr))"
  using assms by (auto simp: handleMessage_def Let_def)

lemma handleRequest_duplicate:
  assumes "MatchingRoute env (GetUriPath env msg) (MethodString env (Code msg))
             (GetOptions msg OPTION_CONTENT_FORMAT) (routes s) \<noteq> Inl ERR_NO_MATCHING_ROUTE"
    and "MatchingRoute env (GetUriPath env msg) (MethodString env (Code msg))
             (GetOptions msg OPTION_CONTENT_FORMAT) (routes s) \<noteq> Inl ERR_NO_MATCHING_METHOD"
    and "MatchingRoute env (GetUriPath env msg) (MethodString env (Code msg))
             (GetOptions msg OPTION_CONTENT_FORMAT) (routes s)
           \<noteq> Inl ERR_UNSUPPORTED_CONTENT_FORMAT"
    and "messageIds s (MessageId msg) \<noteq> None"
  shows "handleRequest env s msg addr = (s, handleDuplicate msg addr)"
  using assms by (auto simp: handleRequest_def split: sum.splits)

text \<open>
  C1 (the claim: for every inbound message whose id is already tracked, a Confirmable one
  is answered with a Reset and a non-Confirmable one with nothing, and no handler runs).
  The duplicate check comes after the route table: a Confirmable request with a tracked
  id and a path that has no route is answered with the "not found" Acknowledgement, not
  with a Reset.
\<close>

theorem duplicate_without_route_not_reset:
  "messageIds (NewServer\<lparr>messageIds := [7 \<mapsto> 0]\<rparr>) (MessageId (ex_request TYPE_CONFIRMABLE GET))
     = Some 0
   \<and> MessageType (ex_request TYPE_CONFIRMABLE GET) = TYPE_CONFIRMABLE
   \<and> map (\<lambda>(m, a). (MessageType m, Code m))
        (sent_messages (snd (handleMessage ex_env (NewServer\<lparr>messageIds := [7 \<mapsto> 0]\<rparr>)
           (ex_request TYPE_CONFIRMABLE GET) None ex_peer)))
       = [(TYPE_ACKNOWLEDGEMENT, COAPCODE_404_NOT_FOUND)]"
  by (simp add: ex_defs dispatch_defs message_defs registry_defs Let_def)

text \<open>
  C1 as amended: for every inbound Confirmable or non-Confirmable message that reaches the
  duplicate check (its method is GET, POST, PUT or DELETE, the decoder reported no unknown
  critical option, it is no proxy request, and the route table did not answer "no
  matching route", "no matching method" or "unsupported content format") and whose id is
  already tracked: a Confirmable one is answered with exactly one message, a Reset with
  the same message id, a non-Confirmable one with nothing; no handler is invoked and the
  server is unchanged.
\<close>

theorem duplicate_message_id:
  assumes "MessageType msg = TYPE_CONFIRMABLE \<or> MessageType msg = TYPE_NONCONFIRMABLE"
    and "Code msg = GET \<or> Code msg = POST \<or> Code msg = PUT \<or> Code msg = DELETE"
    and "err \<noteq> Some ERR_UNKNOWN_CRITICAL_OPTION"
    and "\<not> IsProxyRequest env msg"
    and "MatchingRoute env (GetUriPath env msg) (MethodString env (Code msg))
             (GetOptions msg OPTION_CONTENT_FORMAT) (routes s) \<noteq> Inl ERR_NO_MATCHING_ROUTE"
    and "MatchingRoute env (GetUriPath env msg) (MethodString env (Code msg))
             (GetOptions msg OPTION_CONTENT_FORMAT) (routes s) \<noteq> Inl ERR_NO_MATCHING_METHOD"
    and "MatchingRoute env (GetUriPath env msg) (MethodString env (Code msg))
             (GetOptions msg OPTION_CONTENT_FORMAT) (routes s)
           \<noteq> Inl ERR_UNSUPPORTED_CONTENT_FORMAT"
    and "messageIds s (MessageId msg) \<noteq> None"
  shows "fst (handleMessage env s msg err addr) = s
    \<and> handler_calls (snd (handleMessage env s msg err addr)) = []
    \<and> sent_messages (snd (handleMessage env s msg err addr)) =
        (if MessageType msg = TYPE_CONFIRMABLE
         then [(CloneOptions (EmptyMessage (MessageId msg) TYPE_RESET) msg
                  [OPTION_URI_PATH, OPTION_CONTENT_FORMAT], addr)]
         else [])
    \<and> MessageType (CloneOptions (EmptyMessage (MessageId msg) TYPE_RESET) msg
          [OPTION_URI_PATH, OPTION_CONTENT_FORMAT]) = TYPE_RESET
    \<and> MessageId (CloneOptions (EmptyMessage (MessageId msg) TYPE_RESET) msg
          [OPTION_URI_PATH, OPTION_CONTENT_FORMAT]) = MessageId msg"
proof -
  have hm: "handleMessage env s msg err addr =
      (s, EventMessage msg True # (case err of None \<Rightarrow> [] | Some e \<Rightarrow> [EventError e])
            @ handleDuplicate msg addr)"
    using handleMessage_request [OF assms(1-4)] handleRequest_duplicate [OF assms(5-8)]
    by simp
  show ?thesis
    unfolding hm
    by (simp add: sent_messages_append handler_calls_append sent_messages_errTrace
        handler_calls_errTrace handleDuplicate_def message_defs Let_def)
qed

theorem duplicate_message_id_witness:
  "messageIds (ex_server\<lparr>messageIds := [7 \<mapsto> 0]\<rparr>) (MessageId (ex_request TYPE_CONFIRMABLE GET))
     \<noteq> None
   \<and> handler_calls (snd (handleMessage ex_env (ex_server\<lparr>messageIds := [7 \<mapsto> 0]\<rparr>)
        (ex_request TYPE_CONFIRMABLE GET) None ex_peer)) = []
   \<and> map (\<lambda>(m, a). (MessageType m, MessageId m, a))
        (sent_messages (snd (handleMessage ex_env (ex_server\<lparr>messageIds := [7 \<mapsto> 0]\<rparr>)
           (ex_request TYPE_CONFIRMABLE GET) None ex_peer)))
       = [(TYPE_RESET, 7, ex_peer)]"
proof -
  let ?s = "ex_server\<lparr>messageIds := [7 \<mapsto> 0]\<rparr>"
  let ?m = "ex_request TYPE_CONFIRMABLE GET"
  have route: "MatchingRoute ex_env (GetUriPath ex_env ?m) (MethodString ex_env (Code ?m))
      (GetOptions ?m OPTION_CONTENT_FORMAT) (routes ?s) = Inr (ex_route, [])"
    by (simp add: ex_defs message_defs registry_defs)
  have h1: "MessageType ?m = TYPE_CONFIRMABLE \<or> MessageType ?m = TYPE_NONCONFIRMABLE"
    by (simp add: ex_request_def)
  have h2: "Code ?m = GET \<or> Code ?m = POST \<or> Code ?m = PUT \<or> Code ?m = DELETE"
    by (simp add: ex_request_def)
  have h3: "None \<noteq> Some ERR_UNKNOWN_CRITICAL_OPTION"
    by simp
  have h4: "\<not> IsProxyRequest ex_env ?m"
    by (simp add: ex_env_def ex_request_def GetOption_def)
  have h5: "MatchingRoute ex_env (GetUriPath ex_env ?m) (MethodString ex_env (Code ?m))
      (GetOptions ?m OPTION_CONTENT_FORMAT) (routes ?s) \<noteq> Inl ERR_NO_MATCHING_ROUTE"
    using route by simp
  have h6: "MatchingRoute ex_env (GetUriPath ex_env ?m) (MethodString ex_env (Code ?m))
      (GetOptions ?m OPTION_CONTENT_FORMAT) (routes ?s) \<noteq> Inl ERR_NO_MATCHING_METHOD"
    using route by simp
  have h7: "MatchingRoute ex_env (GetUriPath ex_env ?m) (MethodString ex_env (Code ?m))
      (GetOptions ?m OPTION_CONTENT_FORMAT) (routes ?s) \<noteq> Inl ERR_UNSUPPORTED_CONTENT_FORMAT"
    using route by simp
  have h8: "messageIds ?s (MessageId ?m) \<noteq> None"
    by (simp add: ex_request_def)
  from duplicate_message_id [OF h1 h2 h3 h4 h5 h6 h7 h8, of ex_peer] h8
  show ?thesis
    by (simp add: ex_request_def message_defs)
qed

section \<open>The dispatcher: requests without a route\<close>

lemma GetOptions_CloneOptions_new:
  "GetOptions (CloneOptions (NewMessage t c mid) msg [OPTION_URI_PATH, OPTION_CONTENT_FORMAT])
     OPTION_URI_PATH = GetOptions msg OPTION_URI_PATH"
proof -
  have "filter (\<lambda>opt. OptCode opt = OPTION_URI_PATH)
          (filter (\<lambda>opt. OptCode opt = OPTION_CONTENT_FORMAT) xs) = []" for xs :: "CoapOption list"
    by (induction xs) auto
  then show ?thesis
    by (simp add: GetOptions_def CloneOptions_def NewMessage_def)
qed

text \<open>
  C2 (the claim: a Confirmable GET whose path matches no route is answered with the "not
  found" Acknowledgement echoing the URI-Path option, no handler is invoked, and the
  message id is recorded in the deduplication set). The branch returns before the id is
  recorded: after the "not found" answer to message 7 the set still has no entry for 7.
\<close>

theorem not_found_id_not_recorded:
  "map (\<lambda>(m, a). (MessageType m, Code m))
     (sent_messages (snd (handleMessage ex_env NewServer (ex_request TYPE_CONFIRMABLE GET)
        None ex_peer)))
     = [(TYPE_ACKNOWLEDGEMENT, COAPCODE_404_NOT_FOUND)]
   \<and> MessageId (ex_request TYPE_CONFIRMABLE GET) = 7
   \<and> messageIds (fst (handleMessage ex_env NewServer (ex_request TYPE_CONFIRMABLE GET)
        None ex_peer)) 7 = None"
  by (simp add: ex_defs dispatch_defs message_defs registry_defs Let_def)

text \<open>
  C2 as amended: for every Confirmable GET request that reaches the route table (no
  unknown critical option, no proxy request) and whose path matches no registered route,
  the dispatcher sends exactly one message to the sender, the "not found" Acknowledgement
  with the request's message id, token and URI-Path options; it invokes no handler and
  leaves the server unchanged, so the deduplication set gets no new entry.
\<close>

theorem no_matching_route:
  assumes "MessageType msg = TYPE_CONFIRMABLE"
    and "Code msg = GET"
    and "err \<noteq> Some ERR_UNKNOWN_CRITICAL_OPTION"
    and "\<not> IsProxyRequest env msg"
    and "MatchingRoute env (GetUriPath env msg) (MethodString env (Code msg))
           (GetOptions msg OPTION_CONTENT_FORMAT) (routes s) = Inl ERR_NO_MATCHING_ROUTE"
  shows "\<exists>ret. sent_messages (snd (handleMessage env s msg err addr)) = [(ret, addr)]
      \<and> MessageType ret = TYPE_ACKNOWLEDGEMENT
      \<and> Code ret = COAPCODE_404_NOT_FOUND
      \<and> MessageId ret = MessageId msg
      \<and> Token ret = Token msg
      \<and> GetOptions ret OPTION_URI_PATH = GetOptions msg OPTION_URI_PATH
      \<and> handler_calls (snd (handleMessage env s msg err addr)) = []
      \<and> fst (handleMessage env s msg err addr) = s
      \<and> messageIds (fst (handleMessage env s msg err addr)) = messageIds s"
proof -
  let ?ret = "(CloneOptions (NotFoundMessage (MessageId msg) TYPE_ACKNOWLEDGEMENT) msg
                 [OPTION_URI_PATH, OPTION_CONTENT_FORMAT])\<lparr>Token := Token msg\<rparr>"
  have hr: "handleRequest env s msg addr =
      (s, [EventMessage ?ret False, SendMessageTo ?ret addr, EventError ERR_NO_MATCHING_ROUTE])"
    using assms(5) by (simp add: handleRequest_def Let_def)
  have hm: "handleMessage env s msg err addr =
      (s, EventMessage msg True # (case err of None \<Rightarrow> [] | Some e \<Rightarrow> [EventError e])
            @ [EventMessage ?ret False, SendMessageTo ?ret addr, EventError ERR_NO_MATCHING_ROUTE])"
    using handleMessage_request [of msg err env s addr] assms(1-4) hr by simp
  have opts: "GetOptions ?ret OPTION_URI_PATH = GetOptions msg OPTION_URI_PATH"
    using GetOptions_CloneOptions_new [of TYPE_ACKNOWLEDGEMENT COAPCODE_404_NOT_FOUND "MessageId msg" msg]
    by (simp add: NotFoundMessage_def GetOptions_def)
  have fields: "MessageType ?ret = TYPE_ACKNOWLEDGEMENT \<and> Code ?ret = COAPCODE_404_NOT_FOUND
      \<and> MessageId ?ret = MessageId msg \<and> Token ?ret = Token msg"
    by (simp add: NotFoundMessage_def NewMessage_def CloneOptions_def)
  have "sent_messages (snd (handleMessage env s msg err addr)) = [(?ret, addr)]"
    unfolding hm by (simp add: sent_messages_append sent_messages_errTrace)
  moreover have "handler_calls (snd (handleMessage env s msg err addr)) = []"
    unfolding hm by (simp add: handler_calls_append handler_calls_errTrace)
  moreover have "fst (handleMessage env s msg err addr) = s"
    unfolding hm by simp
  ultimately show ?thesis
    using opts fields by (intro exI [of _ ?ret]) simp
qed

theorem no_matching_route_witness:
  "MatchingRoute ex_env (GetUriPath ex_env (ex_request TYPE_CONFIRMABLE GET))
       (MethodString ex_env (Code (ex_request TYPE_CONFIRMABLE GET)))
       (GetOptions (ex_request TYPE_CONFIRMABLE GET) OPTION_CONTENT_FORMAT) (routes NewServer)
     = Inl ERR_NO_MATCHING_ROUTE
   \<and> (\<exists>ret. sent_messages (snd (handleMessage ex_env NewServer (ex_request TYPE_CONFIRMABLE GET)
          None ex_peer)) = [(ret, ex_peer)]
        \<and> Code ret = COAPCODE_404_NOT_FOUND
        \<and> Token ret = ''tk''
        \<and> GetOptions ret OPTION_URI_PATH
            = [\<lparr>OptCode = OPTION_URI_PATH, Value = Some (StringValue ''temp'')\<rparr>])
   \<and> fst (handleMessage ex_env NewServer (ex_request TYPE_CONFIRMABLE GET) None ex_peer)
       = NewServer"
proof -
  let ?m = "ex_request TYPE_CONFIRMABLE GET"
  have h1: "MessageType ?m = TYPE_CONFIRMABLE"
    by (simp add: ex_request_def)
  have h2: "Code ?m = GET"
    by (simp add: ex_request_def)
  have h3: "None \<noteq> Some ERR_UNKNOWN_CRITICAL_OPTION"
    by simp
  have h4: "\<not> IsProxyRequest ex_env ?m"
    by (simp add: ex_env_def ex_request_def GetOption_def)
  have h5: "MatchingRoute ex_env (GetUriPath ex_env ?m) (MethodString ex_env (Code ?m))
      (GetOptions ?m OPTION_CONTENT_FORMAT) (routes NewServer) = Inl ERR_NO_MATCHING_ROUTE"
    by (simp add: ex_defs message_defs registry_defs)
  have tok: "Token ?m = ''tk''"
    and opts: "GetOptions ?m OPTION_URI_PATH
      = [\<lparr>OptCode = OPTION_URI_PATH, Value = Some (StringValue ''temp'')\<rparr>]"
    by (simp_all add: ex_request_def GetOptions_def)
  from no_matching_route [OF h1 h2 h3 h4 h5, of ex_peer] h5 tok opts
  show ?thesis
    by auto
qed

section \<open>The dispatcher: the token of the error responses\<close>

text \<open>
  C9 (the claim: every response the dispatcher sends for a request, the "not found",
  "method not allowed" and "unsupported content format" responses included, carries the
  requester's token). Only the "not found" branch copies the token
  (\<^verbatim>\<open>ret.Token = msg.Token\<close>); the two branches below it do not. Whatever the token
  of the request, the "method not allowed" and "unsupported content format"
  Acknowledgements carry the empty token of the freshly built message.
\<close>

theorem route_error_reply_has_empty_token:
  assumes "MessageType msg = TYPE_CONFIRMABLE \<or> MessageType msg = TYPE_NONCONFIRMABLE"
    and "Code msg = GET \<or> Code msg = POST \<or> Code msg = PUT \<or> Code msg = DELETE"
    and "err \<noteq> Some ERR_UNKNOWN_CRITICAL_OPTION"
    and "\<not> IsProxyRequest env msg"
    and "MatchingRoute env (GetUriPath env msg) (MethodString env (Code msg))
           (GetOptions msg OPTION_CONTENT_FORMAT) (routes s) = Inl e"
    and "e = ERR_NO_MATCHING_METHOD \<or> e = ERR_UNSUPPORTED_CONTENT_FORMAT"
  shows "map (\<lambda>(m, a). (MessageType m, MessageId m, Token m, a))
      (sent_messages (snd (handleMessage env s msg err addr)))
    = [(TYPE_ACKNOWLEDGEMENT, MessageId msg, [], addr)]"
proof -
  have "map (\<lambda>(m, a). (MessageType m, MessageId m, Token m, a))
      (sent_messages (snd (handleRequest env s msg addr)))
    = [(TYPE_ACKNOWLEDGEMENT, MessageId msg, [], addr)]"
    using assms(5,6) by (auto simp: handleRequest_def Let_def message_defs)
  then show ?thesis
    unfolding handleMessage_request [OF assms(1-4)]
    by (simp add: sent_messages_append sent_messages_errTrace)
qed

theorem route_error_reply_has_empty_token_witness:
  "MatchingRoute ex_env (GetUriPath ex_env (ex_request TYPE_CONFIRMABLE POST))
       (MethodString ex_env (Code (ex_request TYPE_CONFIRMABLE POST)))
       (GetOptions (ex_request TYPE_CONFIRMABLE POST) OPTION_CONTENT_FORMAT) (routes ex_server)
     = Inl ERR_NO_MATCHING_METHOD
   \<and> Token (ex_request TYPE_CONFIRMABLE POST) = ''tk''
   \<and> map (\<lambda>(m, a). (MessageType m, MessageId m, Token m, a))
        (sent_messages (snd (handleMessage ex_env ex_server (ex_request TYPE_CONFIRMABLE POST)
           None ex_peer)))
       = [(TYPE_ACKNOWLEDGEMENT, 7, [], ex_peer)]"
proof -
  let ?m = "ex_request TYPE_CONFIRMABLE POST"
  have h1: "MessageType ?m = TYPE_CONFIRMABLE \<or> MessageType ?m = TYPE_NONCONFIRMABLE"
    by (simp add: ex_request_def)
  have h2: "Code ?m = GET \<or> Code ?m = POST \<or> Code ?m = PUT \<or> Code ?m = DELETE"
    by (simp add: ex_request_def)
  have h3: "None \<noteq> Some ERR_UNKNOWN_CRITICAL_OPTION"
    by simp
  have h4: "\<not> IsProxyRequest ex_env ?m"
    by (simp add: ex_env_def ex_request_def GetOption_def)
  have h5: "MatchingRoute ex_env (GetUriPath ex_env ?m) (MethodString ex_env (Code ?m))
      (GetOptions ?m OPTION_CONTENT_FORMAT) (routes ex_server) = Inl ERR_NO_MATCHING_METHOD"
    by (simp add: ex_defs message_defs registry_defs)
  have h6: "ERR_NO_MATCHING_METHOD = ERR_NO_MATCHING_METHOD
      \<or> ERR_NO_MATCHING_METHOD = ERR_UNSUPPORTED_CONTENT_FORMAT"
    by simp
  have fields: "Token ?m = ''tk''" "MessageId ?m = 7"
    by (simp_all add: ex_request_def)
  from route_error_reply_has_empty_token [OF h1 h2 h3 h4 h5 h6, of ex_peer] h5 fields
  show ?thesis
    by simp
qed

section \<open>The dispatcher: Observe requests\<close>















section \<open>Notifications\<close>

lemma find_append_Some: "find P xs = Some x \<Longrightarrow> find P (xs @ ys) = Some x"
  by (induction xs) (auto split: if_splits)

lemma find_append_None: "find P xs = None \<Longrightarrow> find P (xs @ ys) = find P ys"
  by (induction xs) (auto split: if_splits)

lemma find_none_of: "list_all (\<lambda>x. \<not> P x) xs \<Longrightarrow> find P xs = None"
  by (induction xs) auto

lemma sent_messages_map_send:
  "sent_messages (map (\<lambda>i. SendMessageTo (f i) (g i)) xs) = map (\<lambda>i. (f i, g i)) xs"
  by (induction xs) simp_all

lemma NotifyChange_loop_counters:
  "fst (NotifyChange_loop env req v t)
     = map (\<lambda>ob. ob\<lparr>NotifyCount := int_incr (NotifyCount ob)\<rparr>) t"
  by (induction t arbitrary: req) (simp_all add: Let_def)

lemma NotifyChange_loop_states: "length (snd (NotifyChange_loop env req v t)) = 4 * length t"
  by (induction t arbitrary: req) (simp_all add: Let_def)

text \<open>
  The options of the shared request only grow: once it holds an Observe option, the first
  Observe option of every later state is that one.
\<close>

lemma NotifyChange_loop_first_observe:
  "GetOption req OPTION_OBSERVE = Some x \<Longrightarrow> m \<in> set (snd (NotifyChange_loop env req v t))
     \<Longrightarrow> GetOption m OPTION_OBSERVE = Some x"
proof (induction t arbitrary: req)
  case Nil
  then show ?case by simp
next
  case (Cons r t)
  let ?req1 = "SetToken req (ObsToken r)"
  let ?req2 = "SetStringPayload ?req1 v"
  let ?req3 = "SetRequestURI env ?req2 (Resource r)"
  let ?req4 = "AddOption ?req3 OPTION_OBSERVE (IntValue (int_incr (NotifyCount r)))"
  from Cons.prems(1) have g1: "GetOption ?req1 OPTION_OBSERVE = Some x"
    and g2: "GetOption ?req2 OPTION_OBSERVE = Some x"
    by (simp_all add: GetOption_def SetToken_def SetStringPayload_def)
  from Cons.prems(1) have g3: "GetOption ?req3 OPTION_OBSERVE = Some x"
    by (simp add: GetOption_def SetToken_def SetStringPayload_def SetRequestURI_def
        find_append_Some)
  then have g4: "GetOption ?req4 OPTION_OBSERVE = Some x"
    by (simp add: GetOption_def AddOption_def find_append_Some)
  from Cons.prems(2) have "m = ?req1 \<or> m = ?req2 \<or> m = ?req3 \<or> m = ?req4
      \<or> m \<in> set (snd (NotifyChange_loop env ?req4 v t))"
    by (simp add: Let_def)
  with g1 g2 g3 g4 Cons.IH [OF g4] show ?case
    by blast
qed

text \<open>The request ends with the token of the last observation.\<close>

lemma NotifyChange_loop_last_token:
  "t \<noteq> [] \<Longrightarrow> Token (last (snd (NotifyChange_loop env req v t))) = ObsToken (last t)"
proof (induction t arbitrary: req)
  case Nil
  then show ?case by simp
next
  case (Cons r t)
  let ?req4 = "AddOption (SetRequestURI env (SetStringPayload (SetToken req (ObsToken r)) v)
                 (Resource r)) OPTION_OBSERVE (IntValue (int_incr (NotifyCount r)))"
  show ?case
  proof (cases "t = []")
    case True
    then show ?thesis
      by (simp add: Let_def AddOption_def SetRequestURI_def SetStringPayload_def SetToken_def)
  next
    case False
    then have "snd (NotifyChange_loop env ?req4 v t) \<noteq> []"
      using NotifyChange_loop_states [of env ?req4 v t] by auto
    with False Cons.IH [OF False, of ?req4] show ?thesis
      by (simp add: Let_def)
  qed
qed

text \<open>
  C3 (the claim: with k Observations of a resource, \<^verbatim>\<open>Notify(r, payload, true)\<close>
  produces exactly k messages, one per peer, each with the peer's token and an Observe
  option one above the peer's previous sequence number, and each is enqueued into the
  retransmission scheduler). The code builds one request before the loop and hands the
  same object to every send, so the notifications are not one message per peer. Whenever
  the resource has two Observations or more, and whatever the schedule of the sends: the
  sends go to the peers in the order of the registry, but the message for the second peer
  carries as its first Observe option the new sequence number of the first peer; and a
  send for the first peer that runs after the loop carries the token of the last peer.
  The counters are incremented, and nothing is put into the queue.
\<close>

theorem notify_shares_one_request:
  assumes "observations c r = Some (ob1 # ob2 # t)"
    and "\<forall>u. list_all (\<lambda>opt. OptCode opt \<noteq> OPTION_OBSERVE) (NewPathOptions env u)"
  shows "map snd (sent_messages (snd (NotifyChange env delay c r v confirm)))
      = map Addr (ob1 # ob2 # t)
    \<and> GetOption (fst (sent_messages (snd (NotifyChange env delay c r v confirm)) ! 1))
        OPTION_OBSERVE
      = Some \<lparr>OptCode = OPTION_OBSERVE, Value = Some (IntValue (int_incr (NotifyCount ob1)))\<rparr>
    \<and> (4 * length (ob1 # ob2 # t) \<le> delay 0 \<longrightarrow>
         Token (fst (sent_messages (snd (NotifyChange env delay c r v confirm)) ! 0))
           = ObsToken (last (ob2 # t)))
    \<and> observationsOf (fst (NotifyChange env delay c r v confirm)) r
      = map (\<lambda>ob. ob\<lparr>NotifyCount := int_incr (NotifyCount ob)\<rparr>) (ob1 # ob2 # t)
    \<and> queue (fst (NotifyChange env delay c r v confirm)) = queue c"
proof -
  let ?obs = "ob1 # ob2 # t"
  let ?x1 = "\<lparr>OptCode = OPTION_OBSERVE, Value = Some (IntValue (int_incr (NotifyCount ob1)))\<rparr>"
  define req where "req = (if confirm
      then NewRequest TYPE_CONFIRMABLE COAPCODE_205_CONTENT (GenerateMessageId env)
      else NewRequest TYPE_ACKNOWLEDGEMENT COAPCODE_205_CONTENT (GenerateMessageId env))"
  define req3
    where "req3 = SetRequestURI env (SetStringPayload (SetToken req (ObsToken ob1)) v) (Resource ob1)"
  define req4
    where "req4 = AddOption req3 OPTION_OBSERVE (IntValue (int_incr (NotifyCount ob1)))"
  define states where "states = snd (NotifyChange_loop env req v ?obs)"
  define rest where "rest = snd (NotifyChange_loop env req4 v (ob2 # t))"
  define pick where "pick = (\<lambda>i. states ! min (4 * i + 3 + delay i) (length states - 1))"
  have nc: "NotifyChange env delay c r v confirm =
      (c\<lparr>observations := (observations c)(r \<mapsto> fst (NotifyChange_loop env req v ?obs))\<rparr>,
       map (\<lambda>i. SendMessageTo (pick i) (Addr (?obs ! i))) [0..<length ?obs])"
    unfolding NotifyChange_def pick_def states_def req_def
    by (simp only: assms(1) option.case Let_def)
  have sent: "sent_messages (snd (NotifyChange env delay c r v confirm))
      = map (\<lambda>i. (pick i, Addr (?obs ! i))) [0..<length ?obs]"
    unfolding nc by (simp only: snd_conv sent_messages_map_send)
  have len: "length states = 4 * length ?obs"
    unfolding states_def by (rule NotifyChange_loop_states)
  have lenrest: "length rest = 4 * length (ob2 # t)"
    unfolding rest_def by (rule NotifyChange_loop_states)
  have split: "states = [SetToken req (ObsToken ob1),
      SetStringPayload (SetToken req (ObsToken ob1)) v, req3, req4] @ rest"
    unfolding states_def rest_def req4_def req3_def
    by (simp add: NotifyChange_loop.simps(2) [of env req v ob1 "ob2 # t"] Let_def
        del: NotifyChange_loop.simps)
  have addrs: "map snd (sent_messages (snd (NotifyChange env delay c r v confirm)))
      = map Addr ?obs"
  proof -
    have "map snd (map (\<lambda>i. (pick i, Addr (?obs ! i))) [0..<length ?obs])
        = map Addr (map (\<lambda>i. ?obs ! i) [0..<length ?obs])"
      by (simp only: map_map o_def snd_conv)
    then show ?thesis
      unfolding sent by (simp only: map_nth)
  qed
  have "Options req = []"
    by (simp add: req_def NewRequest_def NewMessage_def)
  then have "Options req3 = NewPathOptions env (Resource ob1)"
    by (simp add: req3_def SetRequestURI_def SetStringPayload_def SetToken_def)
  moreover have "find (\<lambda>opt. OptCode opt = OPTION_OBSERVE) (NewPathOptions env (Resource ob1)) = None"
    using assms(2) by (simp add: find_none_of)
  ultimately have first: "GetOption req4 OPTION_OBSERVE = Some ?x1"
    by (simp add: req4_def GetOption_def AddOption_def find_append_None)
  have k: "2 \<le> length ?obs"
    by simp
  have second: "GetOption (fst (sent_messages (snd (NotifyChange env delay c r v confirm)) ! 1))
      OPTION_OBSERVE = Some ?x1"
  proof -
    define n where "n = min (4 * 1 + 3 + delay 1) (length states - 1)"
    have n: "4 \<le> n" "n - 4 < length rest"
      using len lenrest by (simp_all add: n_def)
    have "sent_messages (snd (NotifyChange env delay c r v confirm)) ! 1
        = (pick 1, Addr (?obs ! 1))"
      unfolding sent using nth_map_upt [of 1 "length ?obs" 0 "\<lambda>i. (pick i, Addr (?obs ! i))"] k
      by simp
    moreover have "pick 1 = states ! n"
      by (simp add: pick_def n_def)
    moreover have "states ! n = rest ! (n - 4)"
      using n(1) unfolding split by (simp add: nth_append eval_nat_numeral)
    moreover have "rest ! (n - 4) \<in> set rest"
      using n(2) by (rule nth_mem)
    then have "GetOption (rest ! (n - 4)) OPTION_OBSERVE = Some ?x1"
      unfolding rest_def by (rule NotifyChange_loop_first_observe [OF first])
    ultimately show ?thesis
      by simp
  qed
  have late: "Token (fst (sent_messages (snd (NotifyChange env delay c r v confirm)) ! 0))
      = ObsToken (last (ob2 # t))" if "4 * length ?obs \<le> delay 0"
  proof -
    have "sent_messages (snd (NotifyChange env delay c r v confirm)) ! 0
        = (pick 0, Addr (?obs ! 0))"
      unfolding sent using nth_map_upt [of 0 "length ?obs" 0 "\<lambda>i. (pick i, Addr (?obs ! i))"] k
      by simp
    moreover have "pick 0 = states ! (length states - 1)"
      using that len by (simp add: pick_def)
    moreover have "states \<noteq> []"
      using len by auto
    then have "states ! (length states - 1) = last states"
      by (simp add: last_conv_nth)
    moreover have "Token (last states) = ObsToken (last ?obs)"
      unfolding states_def by (rule NotifyChange_loop_last_token) simp
    ultimately show ?thesis
      by simp
  qed
  have "observationsOf (fst (NotifyChange env delay c r v confirm)) r
      = map (\<lambda>ob. ob\<lparr>NotifyCount := int_incr (NotifyCount ob)\<rparr>) ?obs"
    unfolding nc
    by (simp add: observationsOf_def NotifyChange_loop_counters del: NotifyChange_loop.simps)
  moreover have "queue (fst (NotifyChange env delay c r v confirm)) = queue c"
    unfolding nc by simp
  ultimately show ?thesis
    using addrs second late by simp
qed

theorem notify_shares_one_request_witness:
  "observations (ex_server\<lparr>observations := [''temp'' \<mapsto> [ex_observation, ex_observation2]]\<rparr>)
     ''temp'' = Some [ex_observation, ex_observation2]
   \<and> map snd (sent_messages (snd (NotifyChange ex_env (\<lambda>i. 0)
        (ex_server\<lparr>observations := [''temp'' \<mapsto> [ex_observation, ex_observation2]]\<rparr>)
        ''temp'' ''21.5'' True))) = [ex_peer, ex_peer2]
   \<and> NotifyCount ex_observation2 = 10
   \<and> GetOption (fst (sent_messages (snd (NotifyChange ex_env (\<lambda>i. 0)
        (ex_server\<lparr>observations := [''temp'' \<mapsto> [ex_observation, ex_observation2]]\<rparr>)
        ''temp'' ''21.5'' True)) ! 1)) OPTION_OBSERVE
       = Some \<lparr>OptCode = OPTION_OBSERVE, Value = Some (IntValue 4)\<rparr>
   \<and> ObsToken ex_observation = ''tk''
   \<and> Token (fst (sent_messages (snd (NotifyChange ex_env (\<lambda>i. 8)
        (ex_server\<lparr>observations := [''temp'' \<mapsto> [ex_observation, ex_observation2]]\<rparr>)
        ''temp'' ''21.5'' True)) ! 0)) = ''tk2''"
proof -
  let ?c = "ex_server\<lparr>observations := [''temp'' \<mapsto> [ex_observation, ex_observation2]]\<rparr>"
  have h1: "observations ?c ''temp'' = Some [ex_observation, ex_observation2]"
    by simp
  have h2: "\<forall>u. list_all (\<lambda>opt. OptCode opt \<noteq> OPTION_OBSERVE) (NewPathOptions ex_env u)"
    by (simp add: ex_env_def)
  have h3: "4 * length [ex_observation, ex_observation2] \<le> (\<lambda>i. 8::nat) 0"
    by simp
  have fields: "NotifyCount ex_observation2 = 10" "ObsToken ex_observation = ''tk''"
    "ObsToken ex_observation2 = ''tk2''" "Addr ex_observation = ex_peer"
    "Addr ex_observation2 = ex_peer2" "int_incr (NotifyCount ex_observation) = 4"
    by (simp_all add: ex_observation_def ex_observation2_def int_incr_def)
  from notify_shares_one_request [OF h1 h2, of "\<lambda>i. 0" "''21.5''" True]
    notify_shares_one_request [OF h1 h2, of "\<lambda>i. 8" "''21.5''" True] h1 h3 fields
  show ?thesis
    by (simp del: NotifyChange_loop.simps)
qed

section \<open>The purge of the message ids\<close>

lemma handleMessageIdPurge_tick_entry:
  "messageIds (handleMessageIdPurge_tick D clock s) k =
     (case messageIds s k of
        None \<Rightarrow> None
      | Some v \<Rightarrow> if clock k - v > D then None else Some v)"
  by (simp add: handleMessageIdPurge_tick_def Let_def split: option.splits)

text \<open>
  C8 (the claim: each run of the purge removes exactly the entries older than the
  retention window, the retention window equals the purge interval, and every younger
  entry is retained). The ticker fires every \<^verbatim>\<open>MESSAGEID_PURGE_DURATION * time.Second\<close>,
  but the test is \<^verbatim>\<open>elapsed > MESSAGEID_PURGE_DURATION\<close> with the bare constant, a number
  of nanoseconds: the retention window is the constant in nanoseconds, the interval is the
  constant in seconds. Whatever the positive constant \<open>D\<close>, an entry is kept up to the
  age of \<open>D\<close> nanoseconds and is removed at the age of \<open>D + 1\<close> nanoseconds, which is
  younger than the interval.
\<close>

theorem purge_window_is_not_the_interval:
  assumes "0 < D"
    and "messageIds s k = Some t0"
  shows "messageIds (handleMessageIdPurge_tick D (\<lambda>_. t0 + D) s) k = Some t0
    \<and> messageIds (handleMessageIdPurge_tick D (\<lambda>_. t0 + D + 1) s) k = None
    \<and> (t0 + D + 1) - t0 < purge_ticker_period D"
proof -
  have "D + 1 < D * 1000000000"
    using assms(1) by arith
  then show ?thesis
    using assms(2) by (simp add: handleMessageIdPurge_tick_entry purge_ticker_period_def Second_def)
qed

theorem purge_window_is_not_the_interval_witness:
  "(0::int) < 60
   \<and> messageIds (ex_server\<lparr>messageIds := [7 \<mapsto> 1000]\<rparr>) 7 = Some 1000
   \<and> messageIds (handleMessageIdPurge_tick 60 (\<lambda>_. 1061)
        (ex_server\<lparr>messageIds := [7 \<mapsto> 1000]\<rparr>)) 7 = None
   \<and> (61::int) < purge_ticker_period 60
   \<and> purge_ticker_period 60 = 60000000000"
proof -
  have h1: "(0::int) < 60"
    by simp
  have h2: "messageIds (ex_server\<lparr>messageIds := [7 \<mapsto> 1000]\<rparr>) 7 = Some 1000"
    by simp
  from purge_window_is_not_the_interval [OF h1 h2] h2 show ?thesis
    by (simp add: purge_ticker_period_def Second_def)
qed

section \<open>The retransmission queue\<close>

text \<open>
  C6 (the claim: an enqueued item with \<^verbatim>\<open>maxRetries = N\<close> that is never acknowledged is
  sent exactly N times, at strictly increasing times, before a timeout event fires). The
  queue of the sources does none of it, against the note at the end of queue.go
  (periodically try to send the items, fire OnTimeout when the retransmissions are
  exceeded): \<^verbatim>\<open>Start\<close> starts nothing, \<^verbatim>\<open>Send\<close> sends nothing and returns \<^verbatim>\<open>nil\<close>,
  whatever the queue holds, and \<^verbatim>\<open>Push\<close> on the queue that \<^verbatim>\<open>NewDefaultQueue\<close> returns
  dereferences the \<^verbatim>\<open>nil\<close> slice pointer.
\<close>

theorem DefaultQueue_sends_nothing:
  "DefaultQueue_Start q = (q, [])
   \<and> DefaultQueue_Send q = ((q, []), None)
   \<and> DefaultQueue_Send \<lparr>priorityQueue = Some [ex_item]\<rparr>
       = ((\<lparr>priorityQueue = Some [ex_item]\<rparr>, []), None)
   \<and> DefaultQueue_Push NewDefaultQueue i = Inl NilPointerDereference"
  by (simp add: DefaultQueue_Start_def DefaultQueue_Send_def DefaultQueue_Push_def
      NewDefaultQueue_def)

section \<open>The queue accessor\<close>

text \<open>
  C10 (the claim: for every queue and every id, \<^verbatim>\<open>q.Get(id)\<close> terminates and returns a
  value). The code does the opposite: \<^verbatim>\<open>Get\<close> calls itself with the same arguments
  and nothing else, so no call of it returns, whatever the queue and the id.
\<close>

theorem DefaultQueue_Get_never_returns: "DefaultQueue_Get q ident = None"
proof (cases "DefaultQueue_Get q ident")
  case None
  then show ?thesis .
next
  case (Some y)
  then have False
    by - (rule DefaultQueue_Get.raw_induct [where P = "\<lambda>_ _ _. False"])
  then show ?thesis ..
qed

end
